theory Spec2Isabelle
  imports Complex_Main
begin

section \<open>The tuning sweep: results and the optimal selector\<close>

text \<open>
  The metrics report of one sweep point is a Python dict from metric name to CSV row, and a
  CSV row is itself a dict from column name to cell. Both are insertion-ordered, so both are
  association lists whose keys are distinct.
\<close>

type_synonym row = "(string \<times> string) list"
type_synonym metrics = "(string \<times> row) list"

text \<open>
  Modelled from the spec: the class \<open>Result\<close> of \<open>osbenchmark.tuning.result\<close> is
  imported by \<open>optimal_finder.py\<close> but is not among the sources. It is a record
  of the identifying test id, the configuration (batch size, bulk size, number of clients),
  the success flag, the total wall-clock time in whole seconds, the error rate and the
  metrics mapping. Python's unbounded integers are \<open>int\<close>; the error rate is a float, read
  as the real number it denotes (\<open>optimal_finder.py\<close> only compares it).
\<close>

record result =
  test_id :: int
  batch_size :: int
  bulk_size :: int
  number_of_client :: int
  success :: bool
  total_time :: int
  error_rate :: real
  result_output :: "metrics option"

text \<open>\<open>sys.maxsize\<close> of a 64-bit CPython.\<close>

definition sys_maxsize :: int where
  "sys_maxsize = 2 ^ 63 - 1"

text \<open>
  \<open>get_successful_results\<close>: the loop appends to \<open>successful_results\<close>, which is the
  accumulator here.
\<close>

fun get_successful_results_loop :: "result list \<Rightarrow> result list \<Rightarrow> real \<Rightarrow> result list" where
  "get_successful_results_loop successful_results [] allowed_error_rate = successful_results"
| "get_successful_results_loop successful_results (r # results) allowed_error_rate =
     (if success r \<and> error_rate r \<le> allowed_error_rate
      then get_successful_results_loop (successful_results @ [r]) results allowed_error_rate
      else get_successful_results_loop successful_results results allowed_error_rate)"

definition get_successful_results :: "result list \<Rightarrow> real \<Rightarrow> result list" where
  "get_successful_results results allowed_error_rate =
     get_successful_results_loop [] results allowed_error_rate"

text \<open>
  \<open>find_optimal_result\<close>: the loop carries the running minimum \<open>total_time\<close> and the
  candidate \<open>optimal\<close> (Python's \<open>None\<close> is \<open>None\<close>).
\<close>

fun find_optimal_result_loop :: "int \<Rightarrow> result option \<Rightarrow> result list \<Rightarrow> result option" where
  "find_optimal_result_loop t optimal [] = optimal"
| "find_optimal_result_loop t optimal (r # results) =
     (if total_time r < t
      then find_optimal_result_loop (total_time r) (Some r) results
      else find_optimal_result_loop t optimal results)"

definition find_optimal_result :: "result list \<Rightarrow> result option" where
  "find_optimal_result results = find_optimal_result_loop sys_maxsize None results"

text \<open>A sweep point used in the examples below.\<close>

definition mk_result :: "int \<Rightarrow> bool \<Rightarrow> int \<Rightarrow> real \<Rightarrow> result" where
  "mk_result i s t e =
     \<lparr>test_id = i, batch_size = 1, bulk_size = 100, number_of_client = 4,
      success = s, total_time = t, error_rate = e, result_output = None\<rparr>"

text \<open>
  The loop invariant of \<open>find_optimal_result\<close>, over the list \<open>pre @ rs\<close> of which \<open>pre\<close>
  has been scanned: the candidate is absent exactly while the minimum is still the start
  value, and otherwise sits at an index of \<open>pre\<close>, has the running minimum as its total
  time, is strictly faster than everything before it and at least as fast as all of \<open>pre\<close>.
\<close>

definition scanned :: "int \<Rightarrow> result list \<Rightarrow> int \<Rightarrow> result option \<Rightarrow> bool" where
  "scanned t0 pre t optimal =
     (case optimal of
        None \<Rightarrow> t = t0 \<and> (\<forall>r \<in> set pre. t0 \<le> total_time r)
      | Some r \<Rightarrow>
          t = total_time r \<and> t < t0 \<and>
          (\<exists>i < length pre. pre ! i = r \<and>
             (\<forall>j < i. total_time r < total_time (pre ! j)) \<and>
             (\<forall>j < length pre. total_time r \<le> total_time (pre ! j))))"

section \<open>The benchmark subprocess runner and the single-point test executor\<close>

subsection \<open>Python values\<close>

text \<open>The exceptions that leave the functions modelled here.\<close>

datatype exn =
    KeyboardInterrupt
  | UnicodeDecodeError
  | FileNotFoundError
  | KeyError
  | AttributeError

text \<open>\<open>str\<close> of a Python integer.\<close>

fun str_nat :: "nat \<Rightarrow> string" where
  "str_nat n =
     (if n < 10 then [''0123456789'' ! n]
      else str_nat (n div 10) @ [''0123456789'' ! (n mod 10)])"

declare str_nat.simps [simp del]

definition str_int :: "int \<Rightarrow> string" where
  "str_int i = (if i < 0 then ''-'' @ str_nat (nat (- i)) else str_nat (nat i))"

text \<open>\<open>int\<close> of a Python float truncates towards zero.\<close>

definition int_of_float :: "real \<Rightarrow> int" where
  "int_of_float x = (if 0 \<le> x then \<lfloor>x\<rfloor> else \<lceil>x\<rceil>)"

text \<open>
  \<open>bytes.decode('ascii')\<close>, strict: a byte above 127 raises. A byte is a \<open>char\<close>, and the
  decoded text has the same bytes.
\<close>

definition decode_ascii :: "char list \<Rightarrow> exn + string" where
  "decode_ascii bs =
     (if list_all (\<lambda>c. (of_char c :: nat) < 128) bs then Inr bs else Inl UnicodeDecodeError)"

text \<open>
  The truth value of an optional string in \<open>if v:\<close>: \<open>None\<close> and the empty string are
  false.
\<close>

definition truthy :: "string option \<Rightarrow> bool" where
  "truthy v = (case v of None \<Rightarrow> False | Some s \<Rightarrow> s \<noteq> [])"

text \<open>
  \<open>d[k] = v\<close> on an insertion-ordered dict: a key already present keeps its place and
  takes the new value, a new key goes to the end.
\<close>

fun dict_set :: "'k \<Rightarrow> 'v \<Rightarrow> ('k \<times> 'v) list \<Rightarrow> ('k \<times> 'v) list" where
  "dict_set k v [] = [(k, v)]"
| "dict_set k v (p # ps) = (if fst p = k then (k, v) # ps else p # dict_set k v ps)"

text \<open>\<open>",".join(params)\<close>.\<close>

fun join_comma :: "string list \<Rightarrow> string" where
  "join_comma [] = []"
| "join_comma [s] = s"
| "join_comma (s # t # ss) = s @ '','' @ join_comma (t # ss)"

subsection \<open>Command-line parameters\<close>

definition METRIC_KEY :: string where
  "METRIC_KEY = ''Metric''"

definition TOTAL_TIME_KEY :: string where
  "TOTAL_TIME_KEY = ''Total time''"

text \<open>The attributes of \<open>args\<close> that the module reads; an attribute not given is \<open>None\<close>.\<close>

record args =
  target_hosts :: "string option"
  client_options :: "string option"
  workload_path :: "string option"

text \<open>
  \<open>get_workload_params\<close>. The random index name (time stamp and UUID) comes from outside
  and is the argument \<open>name\<close>.
\<close>

definition get_workload_params :: "int \<Rightarrow> int \<Rightarrow> int \<Rightarrow> string \<Rightarrow> string" where
  "get_workload_params batch bulk clients name =
     join_comma
       [''bulk_size:'' @ str_int bulk,
        ''batch_size:'' @ str_int batch,
        ''bulk_indexing_clients:'' @ str_int clients,
        ''index_name:'' @ name]"

text \<open>\<open>get_benchmark_params\<close>: the dict of flags, in the order in which they are set.\<close>

definition get_benchmark_params ::
  "args \<Rightarrow> int \<Rightarrow> int \<Rightarrow> int \<Rightarrow> string \<Rightarrow> string \<Rightarrow> (string \<times> string option) list" where
  "get_benchmark_params a batch bulk clients temp_output_file name =
     (let params = dict_set ''--target-hosts'' (target_hosts a) [];
          params = (if truthy (client_options a)
                    then dict_set ''--client-options'' (client_options a) params
                    else params);
          params = dict_set ''--kill-running-processes'' None params;
          params = dict_set ''--pipeline'' (Some ''benchmark-only'') params;
          params = dict_set ''--telemetry'' (Some ''node-stats'') params;
          params = dict_set ''--telemetry-params''
                     (Some (''node-stats-include-indices:true,'' @
                            ''node-stats-sample-interval:10,'' @
                            ''node-stats-include-mem:true,'' @
                            ''node-stats-include-process:true'')) params;
          params = dict_set ''--workload-path'' (workload_path a) params;
          params = dict_set ''--workload-params''
                     (Some (get_workload_params batch bulk clients name)) params;
          params = dict_set ''--results-format'' (Some ''csv'') params;
          params = dict_set ''--results-file'' (Some temp_output_file) params
      in params)"

subsection \<open>The world outside the process\<close>

text \<open>
  The child process as the parent sees it: not started, running, sent the termination
  signal by \<open>Popen.terminate\<close> (which does not wait), or waited for and reaped (which
  \<open>Popen.communicate\<close> does when it returns, and also when it is interrupted and the
  child has exited by then).
\<close>

datatype child_state = NotStarted | Running | TermSent | Reaped

text \<open>
  The child at the moment of the operator's interrupt. \<open>Popen.communicate\<close> catches the
  interrupt itself, waits a quarter of a second for the child and raises the interrupt
  again: a child that has exited by then is reaped there, one that is still running is
  left running.
\<close>

datatype interrupted_child = ExitedMeanwhile | StillRunning

text \<open>
  The state that the functions change: the files (a path has the rows that
  \<open>csv.DictReader\<close> yields for it, or is absent), the command lines that \<open>Popen\<close> has
  started, the child process, the lines written with \<open>console.info\<close> and the values
  passed to \<open>logger.error\<close>.
\<close>

record world =
  files :: "string \<rightharpoonup> row list"
  launched :: "string list list"
  child :: child_state
  console :: "string list"
  error_log :: "string option list"

text \<open>
  What happens to one launch of the benchmark, decided outside the program: the
  executable is not found, and \<open>Popen\<close> raises \<open>FileNotFoundError\<close>; the operator's
  interrupt arrives before \<open>Popen\<close> has returned (\<open>proc\<close> is still \<open>None\<close>); the interrupt
  arrives while \<open>communicate\<close> waits for the child, which has exited meanwhile or is
  still running; or the child exits with a return code and the bytes of its standard
  error. A child that ran leaves the report file as given: absent, or with some rows.
\<close>

datatype child_run =
    LaunchFails
  | InterruptedBeforeLaunch
  | InterruptedWhileWaiting interrupted_child "row list option"
  | Exits int "char list" "row list option"

text \<open>
  The inputs of one sweep point that come from outside: the path that \<open>tempfile.mkstemp\<close>
  creates, the random index name, the float that \<open>timer() - start\<close> evaluates to in the
  \<open>finally\<close> block (the rounded difference of the two readings of the timer, taken as it
  is since floats are not computed with here), and the run of the child.
\<close>

record env =
  temp_file :: string
  random_index_name :: string
  timer_elapsed :: real
  run_of_child :: child_run

subsection \<open>\<open>run_benchmark\<close>\<close>

text \<open>The loop that builds the command line: the flag, then its value if it is true.\<close>

fun append_params :: "string list \<Rightarrow> (string \<times> string option) list \<Rightarrow> string list" where
  "append_params commands [] = commands"
| "append_params commands ((k, v) # params) =
     append_params
       (case v of
          None \<Rightarrow> commands @ [k]
        | Some s \<Rightarrow> if s \<noteq> [] then commands @ [k] @ [s] else commands @ [k])
       params"

definition console_info :: "string \<Rightarrow> world \<Rightarrow> world" where
  "console_info msg w = w\<lparr>console := console w @ [msg]\<rparr>"

text \<open>
  The child writes its report to the path that it is given with \<open>--results-file\<close>, if
  any.
\<close>

definition results_file :: "(string \<times> string option) list \<Rightarrow> string option" where
  "results_file params =
     (case map_of params ''--results-file'' of Some (Some path) \<Rightarrow> Some path | _ \<Rightarrow> None)"

definition child_writes ::
  "string option \<Rightarrow> row list option \<Rightarrow> (string \<rightharpoonup> row list) \<Rightarrow> (string \<rightharpoonup> row list)" where
  "child_writes path written fs = (case path of None \<Rightarrow> fs | Some p \<Rightarrow> fs(p := written))"

text \<open>
  \<open>proc.communicate()\<close> when the interrupt arrives, and \<open>proc.terminate()\<close>: the library
  sends the signal only to a child whose exit it has not yet seen, and does not wait.
\<close>

definition communicate_interrupted :: "interrupted_child \<Rightarrow> world \<Rightarrow> world" where
  "communicate_interrupted c w =
     (case c of ExitedMeanwhile \<Rightarrow> w\<lparr>child := Reaped\<rparr> | StillRunning \<Rightarrow> w)"

definition proc_terminate :: "world \<Rightarrow> world" where
  "proc_terminate w = (if child w = Running then w\<lparr>child := TermSent\<rparr> else w)"

text \<open>
  \<open>run_benchmark\<close>. The handler of \<open>KeyboardInterrupt\<close> calls \<open>proc.terminate()\<close>, prints,
  and raises the interrupt again; with \<open>proc\<close> still \<open>None\<close> the call of \<open>terminate\<close>
  raises \<open>AttributeError\<close> instead. The handler has no call that waits for the child.
\<close>

definition run_benchmark ::
  "(string \<times> string option) list \<Rightarrow> child_run \<Rightarrow> world \<Rightarrow>
     world \<times> (exn + bool \<times> string)" where
  "run_benchmark params run w =
     (let commands = append_params [''opensearch-benchmark'', ''execute-test''] params
      in case run of
           LaunchFails \<Rightarrow> (w, Inl FileNotFoundError)
         | InterruptedBeforeLaunch \<Rightarrow> (w, Inl AttributeError)
         | InterruptedWhileWaiting c written \<Rightarrow>
             (let w = w\<lparr>launched := launched w @ [commands], child := Running,
                        files := child_writes (results_file params) written (files w)\<rparr>;
                  w = communicate_interrupted c w;
                  w = proc_terminate w;
                  w = console_info ''Process is terminated!'' w
              in (w, Inl KeyboardInterrupt))
         | Exits returncode stderr written \<Rightarrow>
             (let w = w\<lparr>launched := launched w @ [commands], child := Running,
                        files := child_writes (results_file params) written (files w)\<rparr>;
                  w = w\<lparr>child := Reaped\<rparr>
              in case decode_ascii stderr of
                   Inl e \<Rightarrow> (w, Inl e)
                 | Inr msg \<Rightarrow> (w, Inr (returncode = 0, msg))))"

subsection \<open>\<open>run_batch_bulk_client_tests\<close>\<close>

text \<open>
  Modelled from the spec: the constructor of \<open>Result\<close> and its method \<open>set_output\<close>, which
  are not among the sources. \<open>set_output(success, total_time, output)\<close> stores its three
  arguments. How the error rate is derived from the metrics is not in the sources; it is
  the parameter \<open>error_rate_of\<close>, and without metrics the error rate stays.
\<close>

definition Result :: "int \<Rightarrow> int \<Rightarrow> int \<Rightarrow> int \<Rightarrow> result" where
  "Result tid batch bulk client =
     \<lparr>test_id = tid, batch_size = batch, bulk_size = bulk, number_of_client = client,
      success = False, total_time = 0, error_rate = 0, result_output = None\<rparr>"

definition set_output ::
  "(metrics \<Rightarrow> real) \<Rightarrow> bool \<Rightarrow> int \<Rightarrow> metrics option \<Rightarrow> result \<Rightarrow> result" where
  "set_output error_rate_of s t out r =
     r\<lparr>success := s, total_time := t, result_output := out,
       error_rate := (case out of None \<Rightarrow> error_rate r | Some m \<Rightarrow> error_rate_of m)\<rparr>"

text \<open>
  The loop over the rows of the report: \<open>output[row[METRIC_KEY]] = row\<close>. A row without
  the column raises \<open>KeyError\<close>.
\<close>

fun read_rows :: "metrics \<Rightarrow> row list \<Rightarrow> exn + metrics" where
  "read_rows out [] = Inr out"
| "read_rows out (r # rows) =
     (case map_of r METRIC_KEY of
        None \<Rightarrow> Inl KeyError
      | Some name \<Rightarrow> read_rows (dict_set name r out) rows)"

text \<open>The synthetic row of the total time.\<close>

definition total_time_row :: "int \<Rightarrow> row" where
  "total_time_row t =
     [(METRIC_KEY, TOTAL_TIME_KEY), (''Task'', ''''), (''Value'', str_int t), (''Unit'', ''s'')]"

text \<open>
  The body of \<open>with open(filename) as csvfile\<close> up to the dict that goes into the result:
  the rows in file order, then the row of the total time.
\<close>

definition build_output :: "row list \<Rightarrow> int \<Rightarrow> exn + metrics" where
  "build_output rows t =
     (case read_rows [] rows of
        Inl e \<Rightarrow> Inl e
      | Inr out \<Rightarrow> Inr (dict_set TOTAL_TIME_KEY (total_time_row t) out))"

text \<open>
  The \<open>finally\<close> block. It runs whether \<open>run_benchmark\<close> returned or raised; \<open>success\<close> and
  \<open>err\<close> still have their initial values \<open>False\<close> and \<open>None\<close> when it raised. An exception
  raised in the block itself (the report cannot be opened, a row has no metric name)
  leaves the block at once.
\<close>

definition finally_block ::
  "(metrics \<Rightarrow> real) \<Rightarrow> string \<Rightarrow> real \<Rightarrow> bool \<Rightarrow> string option \<Rightarrow> result \<Rightarrow> world \<Rightarrow>
     world \<times> (exn + result)" where
  "finally_block error_rate_of filename elapsed succ err res w =
     (let t = int_of_float elapsed
      in if succ then
           (case files w filename of
              None \<Rightarrow> (w, Inl FileNotFoundError)
            | Some rows \<Rightarrow>
                (case build_output rows t of
                   Inl e \<Rightarrow> (w, Inl e)
                 | Inr out \<Rightarrow> (w, Inr (set_output error_rate_of True t (Some out) res))))
         else
           (w\<lparr>error_log := error_log w @ [err]\<rparr>,
            Inr (set_output error_rate_of False t None res)))"

text \<open>
  \<open>run_batch_bulk_client_tests\<close>. After \<open>try ... finally\<close>: an exception of the
  \<open>finally\<close> block, or else the one that \<open>run_benchmark\<close> raised, goes on to the caller,
  and the statements after the block are not reached. Only when neither raised is the
  report file removed, if it exists, and the result returned.
\<close>

definition run_batch_bulk_client_tests ::
  "(metrics \<Rightarrow> real) \<Rightarrow> args \<Rightarrow> int \<Rightarrow> int \<Rightarrow> int \<Rightarrow> int \<Rightarrow> env \<Rightarrow> world \<Rightarrow>
     world \<times> (exn + result)" where
  "run_batch_bulk_client_tests error_rate_of a tid batch bulk client e w =
     (let res = Result tid batch bulk client;
          filename = temp_file e;
          w = w\<lparr>files := (files w)(filename \<mapsto> [])\<rparr>;
          params = get_benchmark_params a batch bulk client filename (random_index_name e);
          w = console_info
                (''Running benchmark with: bulk size: '' @ str_int bulk @
                 '', number of clients: '' @ str_int client @
                 '', batch size: '' @ str_int batch) w;
          (w, ran) = run_benchmark params (run_of_child e) w;
          (succ, err) = (case ran of Inl x \<Rightarrow> (False, None) | Inr (s, msg) \<Rightarrow> (s, Some msg));
          (w, fin) = finally_block error_rate_of filename (timer_elapsed e)
                       succ err res w
      in case fin of
           Inl x \<Rightarrow> (w, Inl x)
         | Inr res \<Rightarrow>
             (case ran of
                Inl x \<Rightarrow> (w, Inl x)
              | Inr _ \<Rightarrow>
                  (if filename \<in> dom (files w)
                   then (w\<lparr>files := (files w)(filename := None)\<rparr>, Inr res)
                   else (w, Inr res))))"

text \<open>
  For stating what the metrics hold: the metric names of the rows in file order, and the
  rows that carry a given metric name.
\<close>

definition metric_names :: "row list \<Rightarrow> string list" where
  "metric_names rows = List.map_filter (\<lambda>r. map_of r METRIC_KEY) rows"

definition rows_of_metric :: "string \<Rightarrow> row list \<Rightarrow> row list" where
  "rows_of_metric k rows = filter (\<lambda>r. map_of r METRIC_KEY = Some k) rows"

text \<open>A world and inputs used in the examples below.\<close>

definition world0 :: world where
  "world0 =
     \<lparr>files = Map.empty, launched = [], child = NotStarted, console = [], error_log = []\<rparr>"

definition args0 :: args where
  "args0 = \<lparr>target_hosts = Some ''localhost:9200'', client_options = None,
            workload_path = Some ''/workloads/bulk''\<rparr>"

definition env0 :: "child_run \<Rightarrow> env" where
  "env0 run = \<lparr>temp_file = ''/tmp/tmpab12'', random_index_name = ''1700000000.5_u'',
              timer_elapsed = 42.75, run_of_child = run\<rparr>"

definition no_error_rate :: "metrics \<Rightarrow> real" where
  "no_error_rate m = 0"

section \<open>The bulk response aggregator\<close>

text \<open>
  The aggregator is the runner \<open>BulkIndex\<close> that \<open>runner_test.py\<close> exercises. The runner
  itself is not among the sources, so every definition of this section follows the
  specification (its data model and the algorithm of its section 4.1), with the shapes of
  the requests and responses that the tests build.
\<close>

text \<open>
  Modelled from the spec: the shard-outcome signature of one item, the triple of total,
  successful and failed copies (the dict under \<open>_shards\<close> in the tests); the runner that
  reads it is missing.
\<close>

record shards =
  total_copies :: int
  successful_copies :: int
  failed_copies :: int

text \<open>
  Modelled from the spec: one item of the response, the response and the request, as the
  missing runner takes them. The operation kind is the single key of the item; its value
  carries the status code, the shard signature and the outcome label (\<open>result\<close>, which
  the items of \<open>test_bulk_index_error\<close> do not have). The items of a response may be
  absent. The request has the body lines, the declared bulk size, the optional index and
  type, and the flag of the detailed results.
\<close>

record details =
  status :: int
  item_shards :: shards
  label :: "string option"

type_synonym item = "string \<times> details"

record bulk_response =
  errors :: bool
  items :: "item list option"

record bulk_request =
  body :: "string list"
  action_metadata_present :: bool
  declared_bulk_size :: int
  declared_index :: "string option"
  declared_type :: "string option"
  detailed_results :: bool

text \<open>
  Modelled from the spec: the outcome of the missing runner. The operation breakdown has
  per operation kind the item count and the count per outcome label, both in first-seen
  order. The shard histogram has groups of an item count and a signature, in first-seen
  order. The outcome has the index, the weight, the unit, the bulk size (which the tests
  read as well), the success flag, the error count and, only with the detailed results,
  the two breakdowns. A response that lacks an expected field is an error.
\<close>

record op_stats =
  op_item_count :: nat
  op_labels :: "(string \<times> nat) list"

record shard_group =
  group_item_count :: nat
  group_shards :: shards

record bulk_outcome =
  out_index :: "string option"
  out_weight :: int
  out_unit :: string
  out_bulk_size :: int
  out_success :: bool
  out_error_count :: nat
  out_ops :: "(string \<times> op_stats) list option"
  out_shards_histogram :: "shard_group list option"

datatype aggregate_error = MalformedResponse

text \<open>
  Modelled from the spec: whether a status code indicates failure, which is missing with
  the runner: a code outside the success range 2xx.
\<close>

definition is_error_status :: "int \<Rightarrow> bool" where
  "is_error_status s = (s < 200 \<or> 299 < s)"

text \<open>
  Modelled from the spec: the update of the operation breakdown for one item, missing with
  the runner: increment the item count of the operation kind and the sub-count of its
  outcome label (an item without label counts as an item only).
\<close>

fun bump :: "'k \<Rightarrow> ('k \<times> nat) list \<Rightarrow> ('k \<times> nat) list" where
  "bump k [] = [(k, 1)]"
| "bump k (p # ps) = (if fst p = k then (k, Suc (snd p)) # ps else p # bump k ps)"

definition bump_label :: "string option \<Rightarrow> op_stats \<Rightarrow> op_stats" where
  "bump_label l st =
     st\<lparr>op_item_count := Suc (op_item_count st),
        op_labels := (case l of None \<Rightarrow> op_labels st | Some x \<Rightarrow> bump x (op_labels st))\<rparr>"

fun update_ops :: "string \<Rightarrow> string option \<Rightarrow> (string \<times> op_stats) list \<Rightarrow>
    (string \<times> op_stats) list" where
  "update_ops kind l [] = [(kind, bump_label l \<lparr>op_item_count = 0, op_labels = []\<rparr>)]"
| "update_ops kind l (p # ps) =
     (if fst p = kind then (kind, bump_label l (snd p)) # ps else p # update_ops kind l ps)"

text \<open>
  Modelled from the spec: the update of the shard histogram for one item, missing with the
  runner: match the exact signature against the signatures seen so far, in first-seen
  order; increment the item count of that group, or append a new group if it is unseen.
\<close>

fun update_histogram :: "shards \<Rightarrow> shard_group list \<Rightarrow> shard_group list" where
  "update_histogram s [] = [\<lparr>group_item_count = 1, group_shards = s\<rparr>]"
| "update_histogram s (g # gs) =
     (if group_shards g = s
      then g\<lparr>group_item_count := Suc (group_item_count g)\<rparr> # gs
      else g # update_histogram s gs)"

text \<open>
  Modelled from the spec: the single pass over the items (step 2), missing with the
  runner. The state is the running error count, the operation breakdown and the shard
  histogram. For each item the error count goes up when the status code indicates
  failure, and the breakdowns are updated only when the detailed results are enabled.
\<close>

type_synonym stats = "nat \<times> (string \<times> op_stats) list \<times> shard_group list"

definition item_step :: "bool \<Rightarrow> stats \<Rightarrow> item \<Rightarrow> stats" where
  "item_step detailed st it =
     (case st of (error_count, ops, histogram) \<Rightarrow>
        (let d = snd it;
             error_count = (if is_error_status (status d) then Suc error_count else error_count)
         in if detailed
            then (error_count, update_ops (fst it) (label d) ops,
                  update_histogram (item_shards d) histogram)
            else (error_count, ops, histogram)))"

fun scan_items :: "bool \<Rightarrow> stats \<Rightarrow> item list \<Rightarrow> stats" where
  "scan_items detailed st [] = st"
| "scan_items detailed st (it # its) = scan_items detailed (item_step detailed st it) its"

text \<open>
  Modelled from the spec: \<open>aggregate(response, request)\<close>, the runner \<open>BulkIndex\<close> that is
  missing. Step 1: without the top-level error flag, return at once, with no breakdown.
  Step 2: otherwise scan the items; a response that has the flag and no items is
  malformed. Step 3: success is an error count of zero; the breakdowns are attached only
  when the detailed results are enabled. (The data model of the specification says
  instead that success is false exactly when the error flag is set. The two differ only on
  a response with the error flag and no item outside 2xx, which no test has.)
\<close>

definition aggregate :: "bulk_response \<Rightarrow> bulk_request \<Rightarrow> aggregate_error + bulk_outcome" where
  "aggregate response request =
     (let base = \<lparr>out_index = declared_index request,
                  out_weight = declared_bulk_size request,
                  out_unit = ''docs'',
                  out_bulk_size = declared_bulk_size request,
                  out_success = True,
                  out_error_count = 0,
                  out_ops = None,
                  out_shards_histogram = None\<rparr>
      in if \<not> errors response then Inr base
         else (case items response of
                 None \<Rightarrow> Inl MalformedResponse
               | Some its \<Rightarrow>
                   (case scan_items (detailed_results request) (0, [], []) its of
                      (error_count, ops, histogram) \<Rightarrow>
                        Inr (base\<lparr>out_success := (error_count = 0),
                                  out_error_count := error_count,
                                  out_ops := (if detailed_results request then Some ops else None),
                                  out_shards_histogram :=
                                    (if detailed_results request then Some histogram else None)\<rparr>))))"

text \<open>
  The values of a list in the order of their first occurrence: the reference against which
  the order of the histogram and of the metrics is stated.
\<close>

fun first_seen :: "'a list \<Rightarrow> 'a list" where
  "first_seen [] = []"
| "first_seen (x # xs) = x # filter (\<lambda>y. y \<noteq> x) (first_seen xs)"

text \<open>
  The histogram that belongs to a sequence of signatures, for stating what the scan
  computes: one group per distinct signature, in the order of first occurrence, with the
  number of occurrences as its item count.
\<close>

definition histogram_of :: "shards list \<Rightarrow> shard_group list" where
  "histogram_of sigs =
     map (\<lambda>s. \<lparr>group_item_count = count_list sigs s, group_shards = s\<rparr>) (first_seen sigs)"

text \<open>Requests and items of \<open>runner_test.py\<close>, used in the examples below.\<close>

definition request0 :: "int \<Rightarrow> string option \<Rightarrow> bool \<Rightarrow> bulk_request" where
  "request0 n idx detailed =
     \<lparr>body = [], action_metadata_present = True, declared_bulk_size = n,
      declared_index = idx, declared_type = None, detailed_results = detailed\<rparr>"

definition item0 :: "string \<Rightarrow> int \<Rightarrow> int \<Rightarrow> int \<Rightarrow> int \<Rightarrow> string option \<Rightarrow> item" where
  "item0 kind st t s f l =
     (kind,
      \<lparr>status = st,
       item_shards = \<lparr>total_copies = t, successful_copies = s, failed_copies = f\<rparr>,
       label = l\<rparr>)"

definition items_error :: "item list" where
  "items_error =
     [item0 ''index'' 201 2 1 0 None,
      item0 ''index'' 500 2 0 2 None,
      item0 ''index'' 404 2 0 2 None]"

definition items_mixed :: "item list" where
  "items_mixed =
     [item0 ''index'' 201 2 1 0 (Some ''created''),
      item0 ''update'' 200 2 1 0 (Some ''updated''),
      item0 ''index'' 500 2 0 2 (Some ''noop''),
      item0 ''index'' 500 2 1 1 (Some ''noop''),
      item0 ''index'' 201 2 1 0 (Some ''created''),
      item0 ''update'' 404 2 0 2 (Some ''noop'')]"

section \<open>Properties of the optimal selector\<close>

lemma get_successful_results_loop_filter:
  "get_successful_results_loop acc rs a =
     acc @ filter (\<lambda>r. success r \<and> error_rate r \<le> a) rs"
  by (induction rs arbitrary: acc) simp_all

lemma get_successful_results_filter:
  "get_successful_results rs a = filter (\<lambda>r. success r \<and> error_rate r \<le> a) rs"
  by (simp add: get_successful_results_def get_successful_results_loop_filter)

lemma scanned_step_lt:
  assumes "scanned t0 pre t optimal" and "total_time r < t"
  shows "scanned t0 (pre @ [r]) (total_time r) (Some r)"
proof -
  have below: "\<forall>j < length pre. total_time r < total_time (pre ! j)"
  proof (cases optimal)
    case None
    with assms have "\<forall>q \<in> set pre. total_time r < total_time q"
      by (auto simp: scanned_def)
    then show ?thesis by simp
  next
    case (Some q)
    with assms show ?thesis by (fastforce simp: scanned_def)
  qed
  have lt0: "total_time r < t0"
    using assms by (cases optimal) (auto simp: scanned_def)
  have "(pre @ [r]) ! length pre = r" by simp
  moreover have "\<forall>j < length pre. total_time r < total_time ((pre @ [r]) ! j)"
    using below by (simp add: nth_append)
  moreover have "\<forall>j < length (pre @ [r]). total_time r \<le> total_time ((pre @ [r]) ! j)"
    using below by (auto simp: nth_append less_Suc_eq)
  ultimately show ?thesis
    using lt0 unfolding scanned_def by (auto intro!: exI [of _ "length pre"])
qed

lemma scanned_step_ge:
  assumes "scanned t0 pre t optimal" and "\<not> total_time r < t"
  shows "scanned t0 (pre @ [r]) t optimal"
proof (cases optimal)
  case None
  with assms show ?thesis by (auto simp: scanned_def)
next
  case (Some q)
  with assms obtain i where i: "i < length pre" "pre ! i = q"
    "\<forall>j < i. total_time q < total_time (pre ! j)"
    "\<forall>j < length pre. total_time q \<le> total_time (pre ! j)"
    and t: "t = total_time q" "t < t0"
    by (auto simp: scanned_def)
  have "(pre @ [r]) ! i = q" using i by (simp add: nth_append)
  moreover have "\<forall>j < i. total_time q < total_time ((pre @ [r]) ! j)"
    using i by (simp add: nth_append)
  moreover have "\<forall>j < length (pre @ [r]). total_time q \<le> total_time ((pre @ [r]) ! j)"
    using i t assms(2) by (auto simp: nth_append less_Suc_eq)
  ultimately show ?thesis
    using Some t i(1) unfolding scanned_def by (auto intro!: exI [of _ i])
qed

lemma find_optimal_result_loop_scanned:
  "scanned t0 pre t optimal \<Longrightarrow>
     \<exists>t'. scanned t0 (pre @ rs) t' (find_optimal_result_loop t optimal rs)"
proof (induction rs arbitrary: pre t optimal)
  case Nil
  then show ?case by auto
next
  case (Cons r rs)
  show ?case
  proof (cases "total_time r < t")
    case True
    from Cons.IH [OF scanned_step_lt [OF Cons.prems True]] True
    show ?thesis by simp
  next
    case False
    from Cons.IH [OF scanned_step_ge [OF Cons.prems False]] False
    show ?thesis by simp
  qed
qed

lemma find_optimal_result_scanned:
  "\<exists>t. scanned sys_maxsize rs t (find_optimal_result rs)"
proof -
  have "scanned sys_maxsize [] sys_maxsize None" by (simp add: scanned_def)
  from find_optimal_result_loop_scanned [OF this, of rs]
  show ?thesis by (simp add: find_optimal_result_def)
qed

text \<open>
  Claim C1, as amended. For every list of results and every allowed error rate, the
  selection (\<open>get_successful_results\<close>, then \<open>find_optimal_result\<close>) considers exactly
  the results with \<open>success\<close> true and an error rate of at most the allowed one, the
  boundary included. It returns none when no result passes the filter. When it returns a
  result, that result is a candidate with a total time below \<open>sys.maxsize\<close>, strictly
  faster than every earlier candidate and at least as fast as every candidate, so ties
  keep the earliest one. When it returns none, every candidate has a total time of at
  least \<open>sys.maxsize\<close>.
\<close>

theorem optimal_selection_below_maxsize:
  "(let cs = get_successful_results rs a in
      cs = filter (\<lambda>r. success r \<and> error_rate r \<le> a) rs \<and>
      (cs = [] \<longrightarrow> find_optimal_result cs = None) \<and>
      (case find_optimal_result cs of
         None \<Rightarrow> \<forall>r \<in> set cs. sys_maxsize \<le> total_time r
       | Some r \<Rightarrow>
           total_time r < sys_maxsize \<and>
           (\<exists>i < length cs. cs ! i = r \<and>
              (\<forall>j < i. total_time r < total_time (cs ! j)) \<and>
              (\<forall>j < length cs. total_time r \<le> total_time (cs ! j)))))"
proof -
  define cs where "cs = get_successful_results rs a"
  obtain t where sc: "scanned sys_maxsize cs t (find_optimal_result cs)"
    using find_optimal_result_scanned by blast
  have 1: "cs = filter (\<lambda>r. success r \<and> error_rate r \<le> a) rs"
    by (simp add: cs_def get_successful_results_filter)
  have 2: "cs = [] \<longrightarrow> find_optimal_result cs = None"
    by (simp add: find_optimal_result_def)
  have 3: "case find_optimal_result cs of
         None \<Rightarrow> \<forall>r \<in> set cs. sys_maxsize \<le> total_time r
       | Some r \<Rightarrow>
           total_time r < sys_maxsize \<and>
           (\<exists>i < length cs. cs ! i = r \<and>
              (\<forall>j < i. total_time r < total_time (cs ! j)) \<and>
              (\<forall>j < length cs. total_time r \<le> total_time (cs ! j)))"
    using sc by (auto simp: scanned_def split: option.splits)
  from 1 2 3 show ?thesis
    unfolding Let_def cs_def [symmetric] by blast
qed

text \<open>
  The selection on five results with the allowed error rate 0.01: the second is too
  erroneous, the third failed, the fourth ties with the first, the fifth is too slow.
\<close>

theorem optimal_selection_below_maxsize_witness:
  "get_successful_results
     [mk_result 1 True 50 0, mk_result 2 True 30 (2 / 100), mk_result 3 False 10 0,
      mk_result 4 True 50 0, mk_result 5 True (2 ^ 63) 0] (1 / 100) =
     [mk_result 1 True 50 0, mk_result 4 True 50 0, mk_result 5 True (2 ^ 63) 0] \<and>
   find_optimal_result
     (get_successful_results
        [mk_result 1 True 50 0, mk_result 2 True 30 (2 / 100), mk_result 3 False 10 0,
         mk_result 4 True 50 0, mk_result 5 True (2 ^ 63) 0] (1 / 100)) =
     Some (mk_result 1 True 50 0) \<and>
   total_time (mk_result 1 True 50 0) < sys_maxsize"
  using optimal_selection_below_maxsize
    [of "[mk_result 1 True 50 0, mk_result 2 True 30 (2 / 100), mk_result 3 False 10 0,
          mk_result 4 True 50 0, mk_result 5 True (2 ^ 63) 0]" "1 / 100"]
  by (simp add: get_successful_results_def find_optimal_result_def mk_result_def
      sys_maxsize_def)

text \<open>
  Claim C1 as stated fails: a single successful result with error rate 0 and a total time
  of \<open>sys.maxsize\<close> passes the filter and has no earlier candidate, yet none is returned.
\<close>

theorem optimal_selection_counterexample:
  "get_successful_results [mk_result 1 True (2 ^ 63 - 1) 0] 0 =
     [mk_result 1 True (2 ^ 63 - 1) 0] \<and>
   find_optimal_result (get_successful_results [mk_result 1 True (2 ^ 63 - 1) 0] 0) = None"
  by (simp add: get_successful_results_def find_optimal_result_def mk_result_def
      sys_maxsize_def)

text \<open>
  Claim C9. The running minimum of \<open>find_optimal_result\<close> starts at \<open>sys.maxsize\<close> and
  the comparison is strict, so a returned result has a total time below \<open>sys.maxsize\<close>;
  a result with a total time of at least \<open>sys.maxsize\<close> that is alone in the list gives
  none, and so does every list of such results.
\<close>

theorem find_optimal_result_excludes_maxsize:
  "(find_optimal_result rs = Some r \<longrightarrow> total_time r < sys_maxsize) \<and>
   (sys_maxsize \<le> total_time r \<longrightarrow> find_optimal_result [r] = None) \<and>
   ((\<forall>q \<in> set rs. sys_maxsize \<le> total_time q) \<longrightarrow> find_optimal_result rs = None)"
proof -
  obtain t where sc: "scanned sys_maxsize rs t (find_optimal_result rs)"
    using find_optimal_result_scanned by blast
  have 1: "find_optimal_result rs = Some r \<longrightarrow> total_time r < sys_maxsize"
    using sc by (auto simp: scanned_def)
  have 2: "sys_maxsize \<le> total_time r \<longrightarrow> find_optimal_result [r] = None"
    by (simp add: find_optimal_result_def)
  have 3: "(\<forall>q \<in> set rs. sys_maxsize \<le> total_time q) \<longrightarrow> find_optimal_result rs = None"
  proof (cases "find_optimal_result rs")
    case None
    then show ?thesis by simp
  next
    case (Some q)
    with sc obtain i where "i < length rs" "rs ! i = q" "total_time q < sys_maxsize"
      by (auto simp: scanned_def)
    then have "q \<in> set rs" "\<not> sys_maxsize \<le> total_time q" by auto
    then show ?thesis by blast
  qed
  from 1 2 3 show ?thesis by blast
qed

text \<open>A result of five seconds is returned; one of \<open>sys.maxsize\<close> seconds is not.\<close>

theorem find_optimal_result_excludes_maxsize_witness:
  "find_optimal_result [mk_result 1 True 5 0, mk_result 2 True (2 ^ 63 - 1) 0] =
     Some (mk_result 1 True 5 0) \<and>
   total_time (mk_result 1 True 5 0) < sys_maxsize \<and>
   sys_maxsize \<le> total_time (mk_result 2 True (2 ^ 63 - 1) 0) \<and>
   find_optimal_result [mk_result 2 True (2 ^ 63 - 1) 0] = None"
  using find_optimal_result_excludes_maxsize
    [of "[mk_result 1 True 5 0, mk_result 2 True (2 ^ 63 - 1) 0]" "mk_result 1 True 5 0"]
    find_optimal_result_excludes_maxsize
    [of "[mk_result 2 True (2 ^ 63 - 1) 0]" "mk_result 2 True (2 ^ 63 - 1) 0"]
  by (simp add: find_optimal_result_def mk_result_def sys_maxsize_def)

section \<open>Values in the order of their first occurrence\<close>

lemma filter_first_seen: "filter P (first_seen xs) = first_seen (filter P xs)"
proof (induction xs)
  case Nil
  then show ?case by simp
next
  case (Cons x xs)
  show ?case
  proof (cases "P x")
    case True
    have "filter P (filter (\<lambda>y. y \<noteq> x) (first_seen xs)) =
          filter (\<lambda>y. y \<noteq> x) (filter P (first_seen xs))"
      by (simp add: conj_commute)
    with True Cons.IH show ?thesis by simp
  next
    case False
    have "filter P (filter (\<lambda>y. y \<noteq> x) (first_seen xs)) = filter P (first_seen xs)"
      using False by (auto intro: filter_cong)
    with False Cons.IH show ?thesis by simp
  qed
qed

lemma set_first_seen: "set (first_seen xs) = set xs"
  by (induction xs) auto

lemma distinct_first_seen: "distinct (first_seen xs)"
  by (induction xs) (auto simp: set_first_seen)

lemma first_seen_distinct: "distinct xs \<Longrightarrow> first_seen xs = xs"
  by (induction xs) (auto simp: set_first_seen intro: filter_True)

lemma first_seen_snoc:
  "first_seen (xs @ [x]) = (if x \<in> set xs then first_seen xs else first_seen xs @ [x])"
proof (induction xs)
  case Nil
  then show ?case by simp
next
  case (Cons a xs)
  then show ?case by auto
qed

text \<open>
  The same list from the library's \<open>remdups\<close>, which keeps the last occurrence of each
  value: reversed before and after, it keeps the first.
\<close>

lemma first_seen_remdups: "first_seen xs = rev (remdups (rev xs))"
  by (induction xs rule: rev_induct) (simp_all add: first_seen_snoc)

lemma first_seen_drop_repeat:
  "y \<in> set xs \<Longrightarrow> first_seen (xs @ y # ys) = first_seen (xs @ ys)"
proof (induction xs)
  case Nil
  then show ?case by simp
next
  case (Cons a xs)
  show ?case
  proof (cases "y = a")
    case True
    then show ?thesis by (simp add: filter_first_seen)
  next
    case False
    with Cons show ?thesis by simp
  qed
qed

section \<open>Properties of the dicts and of reading the report\<close>

lemma map_of_dict_set: "map_of (dict_set k v al) = (map_of al)(k \<mapsto> v)"
  by (induction al) (auto simp: fun_eq_iff)

lemma keys_dict_set:
  "map fst (dict_set k v al) = (if k \<in> set (map fst al) then map fst al else map fst al @ [k])"
  by (induction al) auto

lemma distinct_dict_set: "distinct (map fst al) \<Longrightarrow> distinct (map fst (dict_set k v al))"
  by (simp add: keys_dict_set)

lemma metric_names_Cons:
  "map_of r METRIC_KEY = Some name \<Longrightarrow> metric_names (r # rows) = name # metric_names rows"
  by (simp add: metric_names_def List.map_filter_simps)

lemma rows_of_metric_Cons:
  "map_of r METRIC_KEY = Some name \<Longrightarrow>
     rows_of_metric k (r # rows) =
       (if k = name then r # rows_of_metric k rows else rows_of_metric k rows)"
  by (auto simp: rows_of_metric_def)

lemma read_rows_result:
  assumes "\<forall>r \<in> set rows. map_of r METRIC_KEY \<noteq> None" and "distinct (map fst acc)"
  shows "\<exists>out. read_rows acc rows = Inr out \<and>
           distinct (map fst out) \<and>
           map fst out = first_seen (map fst acc @ metric_names rows) \<and>
           (\<forall>k. map_of out k =
              (if rows_of_metric k rows = [] then map_of acc k
               else Some (last (rows_of_metric k rows))))"
  using assms
proof (induction rows arbitrary: acc)
  case Nil
  then show ?case
    by (simp add: metric_names_def rows_of_metric_def List.map_filter_simps first_seen_distinct)
next
  case (Cons r rows)
  from Cons.prems obtain name where name: "map_of r METRIC_KEY = Some name"
    by auto
  let ?acc = "dict_set name r acc"
  have d: "distinct (map fst ?acc)"
    using Cons.prems(2) by (rule distinct_dict_set)
  from Cons.prems(1) have "\<forall>r \<in> set rows. map_of r METRIC_KEY \<noteq> None" by simp
  from Cons.IH [OF this d] obtain out where out: "read_rows ?acc rows = Inr out"
    "distinct (map fst out)"
    "map fst out = first_seen (map fst ?acc @ metric_names rows)"
    "\<forall>k. map_of out k =
        (if rows_of_metric k rows = [] then map_of ?acc k
         else Some (last (rows_of_metric k rows)))"
    by blast
  have run: "read_rows acc (r # rows) = Inr out"
    using name out(1) by simp
  have keys: "map fst out = first_seen (map fst acc @ metric_names (r # rows))"
  proof (cases "name \<in> set (map fst acc)")
    case True
    then have "first_seen (map fst acc @ name # metric_names rows) =
               first_seen (map fst acc @ metric_names rows)"
      by (rule first_seen_drop_repeat)
    with True out(3) show ?thesis
      by (simp add: keys_dict_set metric_names_Cons [OF name])
  next
    case False
    with out(3) show ?thesis
      by (simp add: keys_dict_set metric_names_Cons [OF name])
  qed
  have vals: "map_of out k =
        (if rows_of_metric k (r # rows) = [] then map_of acc k
         else Some (last (rows_of_metric k (r # rows))))" for k
    using out(4) by (simp add: rows_of_metric_Cons [OF name] map_of_dict_set)
  from run out(2) keys vals show ?case by blast
qed

lemma build_output_result:
  assumes "\<forall>r \<in> set rows. map_of r METRIC_KEY \<noteq> None"
  shows "\<exists>out. build_output rows t = Inr out \<and>
           distinct (map fst out) \<and>
           map fst out = first_seen (metric_names rows @ [TOTAL_TIME_KEY]) \<and>
           map_of out TOTAL_TIME_KEY = Some (total_time_row t) \<and>
           (\<forall>k. k \<noteq> TOTAL_TIME_KEY \<longrightarrow>
              map_of out k =
                (if rows_of_metric k rows = [] then None
                 else Some (last (rows_of_metric k rows))))"
proof -
  from read_rows_result [OF assms, of "[]"] obtain out where out:
    "read_rows [] rows = Inr out" "distinct (map fst out)"
    "map fst out = first_seen (metric_names rows)"
    "\<forall>k. map_of out k =
        (if rows_of_metric k rows = [] then None else Some (last (rows_of_metric k rows)))"
    by auto
  let ?out = "dict_set TOTAL_TIME_KEY (total_time_row t) out"
  have "build_output rows t = Inr ?out"
    using out(1) by (simp add: build_output_def)
  moreover have "distinct (map fst ?out)"
    using out(2) by (rule distinct_dict_set)
  moreover have "map fst ?out = first_seen (metric_names rows @ [TOTAL_TIME_KEY])"
    using out(3) by (simp add: keys_dict_set first_seen_snoc set_first_seen)
  moreover have "map_of ?out TOTAL_TIME_KEY = Some (total_time_row t)"
    by (simp add: map_of_dict_set)
  moreover have "\<forall>k. k \<noteq> TOTAL_TIME_KEY \<longrightarrow>
      map_of ?out k =
        (if rows_of_metric k rows = [] then None else Some (last (rows_of_metric k rows)))"
    using out(4) by (simp add: map_of_dict_set)
  ultimately show ?thesis by blast
qed

section \<open>Properties of the single-point test executor\<close>

lemma results_file_params:
  "results_file (get_benchmark_params a batch bulk clients filename name) = Some filename"
  by (simp add: results_file_def get_benchmark_params_def map_of_dict_set Let_def)

lemma run_benchmark_exits:
  "decode_ascii stderr = Inr msg \<Longrightarrow>
     run_benchmark params (Exits rc stderr written) w =
       (w\<lparr>launched :=
            launched w @ [append_params [''opensearch-benchmark'', ''execute-test''] params],
          child := Reaped, files := child_writes (results_file params) written (files w)\<rparr>,
        Inr (rc = 0, msg))"
  by (simp add: run_benchmark_def Let_def)

lemma run_batch_failure_ascii:
  assumes "decode_ascii stderr = Inr msg" and "rc \<noteq> 0"
  shows "\<exists>w'. run_batch_bulk_client_tests f a tid batch bulk client
                (e\<lparr>run_of_child := Exits rc stderr written\<rparr>) w =
              (w', Inr (set_output f False (int_of_float (timer_elapsed e)) None
                          (Result tid batch bulk client))) \<and>
              temp_file e \<notin> dom (files w') \<and>
              error_log w' = error_log w @ [Some msg]"
  using assms
  by (cases written)
     (simp_all add: run_batch_bulk_client_tests_def run_benchmark_exits finally_block_def
        results_file_params child_writes_def Let_def console_info_def)

lemma run_batch_success_ascii:
  assumes "decode_ascii stderr = Inr msg"
    and "build_output rows (int_of_float (timer_elapsed e)) = Inr out"
  shows "\<exists>w'. run_batch_bulk_client_tests f a tid batch bulk client
                (e\<lparr>run_of_child := Exits 0 stderr (Some rows)\<rparr>) w =
              (w', Inr (set_output f True (int_of_float (timer_elapsed e)) (Some out)
                          (Result tid batch bulk client))) \<and>
              temp_file e \<notin> dom (files w')"
  using assms
  by (simp add: run_batch_bulk_client_tests_def run_benchmark_exits finally_block_def
        results_file_params child_writes_def Let_def console_info_def)

text \<open>
  Claim C10. On the success path the metrics of the result are built from the rows of the
  report in file order, keyed by the value of their \<open>Metric\<close> column: the keys are the
  metric names in the order of their first occurrence, then \<open>Total time\<close> if no row had
  that name; a metric name other than \<open>Total time\<close> holds the last row that carries it, so
  a later row replaces an earlier one of the same name; and \<open>Total time\<close> always holds
  the synthetic row of the elapsed seconds, whatever rows of that name the report had.
\<close>

theorem metrics_later_row_wins:
  assumes "decode_ascii stderr = Inr msg"
    and "\<forall>r \<in> set rows. map_of r METRIC_KEY \<noteq> None"
  shows "\<exists>w' res out.
           run_batch_bulk_client_tests f a tid batch bulk client
             (e\<lparr>run_of_child := Exits 0 stderr (Some rows)\<rparr>) w = (w', Inr res) \<and>
           success res \<and>
           total_time res = int_of_float (timer_elapsed e) \<and>
           result_output res = Some out \<and>
           map fst out = first_seen (metric_names rows @ [TOTAL_TIME_KEY]) \<and>
           map_of out TOTAL_TIME_KEY = Some (total_time_row (total_time res)) \<and>
           (\<forall>k. k \<noteq> TOTAL_TIME_KEY \<longrightarrow>
              map_of out k =
                (if rows_of_metric k rows = [] then None
                 else Some (last (rows_of_metric k rows))))"
proof -
  let ?t = "int_of_float (timer_elapsed e)"
  from build_output_result [OF assms(2), of ?t] obtain out where out:
    "build_output rows ?t = Inr out"
    "map fst out = first_seen (metric_names rows @ [TOTAL_TIME_KEY])"
    "map_of out TOTAL_TIME_KEY = Some (total_time_row ?t)"
    "\<forall>k. k \<noteq> TOTAL_TIME_KEY \<longrightarrow>
       map_of out k =
         (if rows_of_metric k rows = [] then None else Some (last (rows_of_metric k rows)))"
    by blast
  let ?res = "set_output f True ?t (Some out) (Result tid batch bulk client)"
  from run_batch_success_ascii [OF assms(1) out(1)] obtain w' where
    "run_batch_bulk_client_tests f a tid batch bulk client
       (e\<lparr>run_of_child := Exits 0 stderr (Some rows)\<rparr>) w = (w', Inr ?res)"
    by blast
  moreover have "success ?res" "total_time ?res = ?t" "result_output ?res = Some out"
    by (simp_all add: set_output_def)
  ultimately show ?thesis
    using out(2,3,4) by (intro exI [of _ w'] exI [of _ ?res] exI [of _ out]) simp
qed

text \<open>
  A report of three rows: \<open>a\<close>, \<open>Total time\<close>, \<open>a\<close> again. The second \<open>a\<close> row is the one
  kept, at the place of the first, and the \<open>Total time\<close> row of the report gives way to
  the synthetic one of 42 seconds.
\<close>

theorem metrics_later_row_wins_witness:
  "decode_ascii ''warn'' = Inr ''warn'' \<and>
   map (\<lambda>r. map_of r METRIC_KEY)
     [[(''Metric'', ''a''), (''Value'', ''1'')],
      [(''Metric'', ''Total time''), (''Value'', ''9'')],
      [(''Metric'', ''a''), (''Value'', ''2'')]] = [Some ''a'', Some ''Total time'', Some ''a''] \<and>
   snd (run_batch_bulk_client_tests no_error_rate args0 7 1 100 4
       (env0 (Exits 0 ''warn''
          (Some [[(''Metric'', ''a''), (''Value'', ''1'')],
                 [(''Metric'', ''Total time''), (''Value'', ''9'')],
                 [(''Metric'', ''a''), (''Value'', ''2'')]]))) world0) =
     Inr \<lparr>test_id = 7, batch_size = 1, bulk_size = 100, number_of_client = 4,
          success = True, total_time = 42, error_rate = 0,
          result_output =
            Some [(''a'', [(''Metric'', ''a''), (''Value'', ''2'')]),
                  (''Total time'',
                   [(''Metric'', ''Total time''), (''Task'', ''''), (''Value'', ''42''),
                    (''Unit'', ''s'')])]\<rparr>"
proof -
  have h1: "decode_ascii ''warn'' = Inr ''warn''"
    by (simp add: decode_ascii_def)
  have h2: "\<forall>r \<in> set [[(''Metric'', ''a''), (''Value'', ''1'')],
                 [(''Metric'', ''Total time''), (''Value'', ''9'')],
                 [(''Metric'', ''a''), (''Value'', ''2'')]]. map_of r METRIC_KEY \<noteq> None"
    by (simp add: METRIC_KEY_def)
  show ?thesis
    using h1 h2
      metrics_later_row_wins [OF h1 h2, of no_error_rate args0 7 1 100 4 "env0 LaunchFails" world0]
    by (simp add: run_batch_bulk_client_tests_def run_benchmark_def finally_block_def
        results_file_params child_writes_def
        build_output_def set_output_def Result_def int_of_float_def total_time_row_def
        str_int_def str_nat.simps env0_def world0_def no_error_rate_def
        METRIC_KEY_def TOTAL_TIME_KEY_def console_info_def Let_def)
qed

text \<open>
  Claim C7, as amended. When the interrupt arrives while \<open>run_benchmark\<close> waits for the
  child, \<open>run_benchmark\<close> calls \<open>proc.terminate()\<close>, prints the message and raises
  \<open>KeyboardInterrupt\<close> to its caller, so the cancellation is not swallowed. It does not
  wait for the child after that: a child that is still running has been sent the
  termination signal and is not reaped when the interrupt is raised again; only a child
  that had exited meanwhile is reaped, by the library and before \<open>terminate\<close>, which then
  sends nothing.
\<close>

theorem run_benchmark_interrupt_terminates:
  "snd (run_benchmark params (InterruptedWhileWaiting c written) w) = Inl KeyboardInterrupt \<and>
   child (fst (run_benchmark params (InterruptedWhileWaiting StillRunning written) w)) =
     TermSent \<and>
   child (fst (run_benchmark params (InterruptedWhileWaiting ExitedMeanwhile written) w)) =
     Reaped \<and>
   console (fst (run_benchmark params (InterruptedWhileWaiting c written) w)) =
     console w @ [''Process is terminated!''] \<and>
   launched (fst (run_benchmark params (InterruptedWhileWaiting c written) w)) =
     launched w @ [append_params [''opensearch-benchmark'', ''execute-test''] params]"
  by (cases c)
     (simp_all add: run_benchmark_def communicate_interrupted_def proc_terminate_def
        Let_def console_info_def)

text \<open>
  Claim C7 as stated fails: a child that is still running when the interrupt arrives is
  not reaped when the interrupt is raised again.
\<close>

theorem run_benchmark_interrupt_counterexample:
  "snd (run_benchmark [(''--pipeline'', Some ''benchmark-only'')]
          (InterruptedWhileWaiting StillRunning None) world0) = Inl KeyboardInterrupt \<and>
   child (fst (run_benchmark [(''--pipeline'', Some ''benchmark-only'')]
          (InterruptedWhileWaiting StillRunning None) world0)) \<noteq> Reaped"
  by (simp add: run_benchmark_def communicate_interrupted_def proc_terminate_def
      Let_def console_info_def world0_def)

text \<open>
  Claim C2 fails on the code. The operator interrupts a sweep point while the child runs,
  and the child has written one row of the report by then: the interrupt leaves
  \<open>run_batch_bulk_client_tests\<close> through the \<open>finally\<close> block, the removal of the file
  after the block is not reached, and the temporary report is still there.
\<close>

theorem temp_file_left_on_interrupt:
  "snd (run_batch_bulk_client_tests no_error_rate args0 7 1 100 4
          (env0 (InterruptedWhileWaiting StillRunning
             (Some [[(''Metric'', ''a''), (''Value'', ''1'')]])))
          world0) = Inl KeyboardInterrupt \<and>
   files (fst (run_batch_bulk_client_tests no_error_rate args0 7 1 100 4
          (env0 (InterruptedWhileWaiting StillRunning
             (Some [[(''Metric'', ''a''), (''Value'', ''1'')]])))
          world0)) ''/tmp/tmpab12'' = Some [[(''Metric'', ''a''), (''Value'', ''1'')]]"
  by (simp add: run_batch_bulk_client_tests_def run_benchmark_def finally_block_def
      results_file_params child_writes_def communicate_interrupted_def proc_terminate_def
      set_output_def Result_def env0_def world0_def console_info_def Let_def)

text \<open>
  Claim C8 fails on the code. The child exits with code 1 after writing the two bytes of
  a UTF-8 encoded letter to its standard error: \<open>stderr.decode('ascii')\<close> raises, and
  \<open>run_batch_bulk_client_tests\<close> raises \<open>UnicodeDecodeError\<close> to the sweep driver instead
  of returning a result (and leaves the temporary report as well).
\<close>

theorem failure_with_non_ascii_stderr_raises:
  "snd (run_batch_bulk_client_tests no_error_rate args0 7 1 100 4
          (env0 (Exits 1 [CHR 0xC3, CHR 0xA9] (Some []))) world0) = Inl UnicodeDecodeError \<and>
   files (fst (run_batch_bulk_client_tests no_error_rate args0 7 1 100 4
          (env0 (Exits 1 [CHR 0xC3, CHR 0xA9] (Some []))) world0)) ''/tmp/tmpab12'' = Some []"
  by (simp add: run_batch_bulk_client_tests_def run_benchmark_def finally_block_def
      results_file_params child_writes_def
      decode_ascii_def set_output_def Result_def env0_def world0_def console_info_def Let_def)

section \<open>Properties of the bulk response aggregator\<close>

lemma scan_items_error_count:
  "fst (scan_items detailed (n, ops, h) its) =
     n + length (filter (\<lambda>it. is_error_status (status (snd it))) its)"
  by (induction its arbitrary: n ops h) (auto simp: item_step_def Let_def)

lemma scan_items_not_detailed:
  "snd (scan_items False (n, ops, h) its) = (ops, h)"
  by (induction its arbitrary: n) (simp_all add: item_step_def Let_def)

text \<open>The histogram that belongs to a sequence of signatures.\<close>

lemma update_histogram_sum:
  "sum_list (map group_item_count (update_histogram s h)) =
     Suc (sum_list (map group_item_count h))"
  by (induction h) simp_all

lemma update_histogram_groups:
  assumes "distinct ys"
  shows "update_histogram s (map (\<lambda>q. \<lparr>group_item_count = c q, group_shards = q\<rparr>) ys) =
     (if s \<in> set ys
      then map (\<lambda>q. \<lparr>group_item_count = (if q = s then Suc (c q) else c q),
                      group_shards = q\<rparr>) ys
      else map (\<lambda>q. \<lparr>group_item_count = c q, group_shards = q\<rparr>) ys @
           [\<lparr>group_item_count = 1, group_shards = s\<rparr>])"
  using assms by (induction ys) auto

lemma update_histogram_histogram_of:
  "update_histogram s (histogram_of xs) = histogram_of (xs @ [s])"
proof (cases "s \<in> set xs")
  case True
  then show ?thesis
    unfolding histogram_of_def
    by (simp add: update_histogram_groups distinct_first_seen set_first_seen first_seen_snoc)
next
  case False
  then show ?thesis
    unfolding histogram_of_def
    by (auto simp: update_histogram_groups distinct_first_seen set_first_seen first_seen_snoc)
qed

lemma scan_items_histogram:
  "snd (snd (scan_items True (n, ops, histogram_of pre) its)) =
     histogram_of (pre @ map (\<lambda>it. item_shards (snd it)) its)"
proof (induction its arbitrary: n ops pre)
  case Nil
  then show ?case by simp
next
  case (Cons it its)
  from Cons.IH [of _ _ "pre @ [item_shards (snd it)]"]
  show ?case
    by (simp add: item_step_def Let_def update_histogram_histogram_of)
qed

lemma scan_items_histogram_sum:
  "sum_list (map group_item_count (snd (snd (scan_items True (n, ops, h) its)))) =
     sum_list (map group_item_count h) + length its"
  by (induction its arbitrary: n ops h) (simp_all add: item_step_def Let_def update_histogram_sum)

lemma aggregate_errors:
  "aggregate \<lparr>errors = True, items = Some its\<rparr> request =
     (case scan_items (detailed_results request) (0, [], []) its of
        (error_count, ops, histogram) \<Rightarrow>
          Inr \<lparr>out_index = declared_index request,
               out_weight = declared_bulk_size request,
               out_unit = ''docs'',
               out_bulk_size = declared_bulk_size request,
               out_success = (error_count = 0),
               out_error_count = error_count,
               out_ops = (if detailed_results request then Some ops else None),
               out_shards_histogram =
                 (if detailed_results request then Some histogram else None)\<rparr>)"
  by (simp add: aggregate_def Let_def split: prod.splits)

text \<open>
  Claim C3. Without the top-level error flag the aggregator returns the declared bulk
  size as weight (whatever the lines of the body), the unit \<open>docs\<close>, success, an error
  count of zero, the declared index or none, and neither operation breakdown nor shard
  histogram, whether the detailed results are enabled or not and whatever the items are,
  also when there are none.
\<close>

theorem aggregate_without_error_flag:
  "aggregate \<lparr>errors = False, items = its\<rparr> (request\<lparr>body := b, detailed_results := d\<rparr>) =
     Inr \<lparr>out_index = declared_index request,
          out_weight = declared_bulk_size request,
          out_unit = ''docs'',
          out_bulk_size = declared_bulk_size request,
          out_success = True,
          out_error_count = 0,
          out_ops = None,
          out_shards_histogram = None\<rparr>"
  by (simp add: aggregate_def)

text \<open>
  The two successful bulks of \<open>runner_test.py\<close>: six body lines and a bulk size of three
  without index, and with the detailed results on, the items of a failed bulk and the
  index \<open>test-index\<close>.
\<close>

theorem aggregate_without_error_flag_witness:
  "aggregate \<lparr>errors = False, items = None\<rparr>
     ((request0 3 None False)
        \<lparr>body := [''action_meta_data'', ''index_line'', ''action_meta_data'', ''index_line'',
                  ''action_meta_data'', ''index_line''],
         detailed_results := False\<rparr>) =
     Inr \<lparr>out_index = None, out_weight = 3, out_unit = ''docs'', out_bulk_size = 3,
          out_success = True, out_error_count = 0, out_ops = None,
          out_shards_histogram = None\<rparr> \<and>
   aggregate \<lparr>errors = False, items = Some items_error\<rparr>
     ((request0 3 (Some ''test-index'') False)
        \<lparr>body := [''index_line'', ''index_line'', ''index_line''],
         detailed_results := True\<rparr>) =
     Inr \<lparr>out_index = Some ''test-index'', out_weight = 3, out_unit = ''docs'',
          out_bulk_size = 3, out_success = True, out_error_count = 0, out_ops = None,
          out_shards_histogram = None\<rparr>"
  using aggregate_without_error_flag [where its = None and request = "request0 3 None False"
      and b = "[''action_meta_data'', ''index_line'', ''action_meta_data'', ''index_line'',
        ''action_meta_data'', ''index_line'']" and d = False]
    aggregate_without_error_flag [where its = "Some items_error"
      and request = "request0 3 (Some ''test-index'') False"
      and b = "[''index_line'', ''index_line'', ''index_line'']" and d = True]
  by (simp add: request0_def)

text \<open>
  Claim C4. With the top-level error flag the error count is the number of items whose
  status code lies outside 200 to 299. It is a function of the status codes alone, so the
  outcome labels of the items do not matter.
\<close>

theorem error_count_counts_statuses:
  "\<exists>out. aggregate \<lparr>errors = True, items = Some its\<rparr> request = Inr out \<and>
         out_error_count out =
           length (filter (\<lambda>s. s < 200 \<or> 299 < s) (map (\<lambda>it. status (snd it)) its))"
proof -
  obtain n ops h where scan: "scan_items (detailed_results request) (0, [], []) its = (n, ops, h)"
    by (cases "scan_items (detailed_results request) (0, [], []) its") auto
  have "n = length (filter (\<lambda>it. is_error_status (status (snd it))) its)"
    using scan_items_error_count [of "detailed_results request" 0 "[]" "[]" its] scan by simp
  also have "\<dots> = length (filter (\<lambda>s. s < 200 \<or> 299 < s) (map (\<lambda>it. status (snd it)) its))"
    by (simp add: filter_map comp_def is_error_status_def)
  finally show ?thesis
    using scan by (simp add: aggregate_errors)
qed

text \<open>
  The failed bulk of \<open>test_bulk_index_error\<close>, with the status codes 201, 500 and 404 and
  no labels: two errors.
\<close>

theorem error_count_counts_statuses_witness:
  "aggregate \<lparr>errors = True, items = Some items_error\<rparr> (request0 3 (Some ''test'') False) =
     Inr \<lparr>out_index = Some ''test'', out_weight = 3, out_unit = ''docs'', out_bulk_size = 3,
          out_success = False, out_error_count = 2, out_ops = None,
          out_shards_histogram = None\<rparr> \<and>
   length (filter (\<lambda>s. s < 200 \<or> 299 < s) (map (\<lambda>it. status (snd it)) items_error)) = 2"
  using error_count_counts_statuses [where its = items_error
      and request = "request0 3 (Some ''test'') False"]
  by (simp add: aggregate_def request0_def items_error_def item0_def item_step_def
      is_error_status_def Let_def)

text \<open>
  The success flag where the two statements of the specification about it agree (success
  is an error count of zero; success is false exactly when the error flag is set): a
  response without the error flag is successful with no errors, and a response with the
  error flag and an item whose status code lies outside 200 to 299 is not.
\<close>

lemma aggregate_success_agreed:
  "(\<exists>out. aggregate \<lparr>errors = False, items = any\<rparr> request = Inr out \<and>
          out_success out \<and> out_error_count out = 0) \<and>
   ((\<exists>it \<in> set its. status (snd it) < 200 \<or> 299 < status (snd it)) \<longrightarrow>
    (\<exists>out. aggregate \<lparr>errors = True, items = Some its\<rparr> request = Inr out \<and>
           \<not> out_success out))"
proof -
  have 1: "\<exists>out. aggregate \<lparr>errors = False, items = any\<rparr> request = Inr out \<and>
      out_success out \<and> out_error_count out = 0"
    by (simp add: aggregate_def)
  obtain n ops h where scan: "scan_items (detailed_results request) (0, [], []) its = (n, ops, h)"
    by (cases "scan_items (detailed_results request) (0, [], []) its") auto
  have n: "n = length (filter (\<lambda>it. is_error_status (status (snd it))) its)"
    using scan_items_error_count [of "detailed_results request" 0 "[]" "[]" its] scan by simp
  have "(n \<noteq> 0) = (\<exists>it \<in> set its. status (snd it) < 200 \<or> 299 < status (snd it))"
    unfolding n by (auto simp: filter_empty_conv is_error_status_def)
  then have 2: "(\<exists>it \<in> set its. status (snd it) < 200 \<or> 299 < status (snd it)) \<longrightarrow>
      (\<exists>out. aggregate \<lparr>errors = True, items = Some its\<rparr> request = Inr out \<and>
             \<not> out_success out)"
    using scan by (simp add: aggregate_errors)
  from 1 2 show ?thesis by blast
qed

lemma histogram_of_shards: "map group_shards (histogram_of sigs) = first_seen sigs"
  by (simp add: histogram_of_def comp_def)

lemma histogram_of_count:
  "g \<in> set (histogram_of sigs) \<Longrightarrow> group_item_count g = count_list sigs (group_shards g)"
  by (auto simp: histogram_of_def)

text \<open>
  Claim C6, as amended. With the detailed results enabled, a response with the error flag
  and its items gets a shard histogram with one group per distinct signature (two items
  are in the same group exactly when their triples of total, successful and failed
  copies are equal), the groups stand in the order in which their signatures first occur
  among the items, the item count of a group is the number of items with its signature,
  and the item counts add up to the number of items. A response without the error flag
  gets no histogram, whatever its items, and a response with the error flag and no items
  is rejected as malformed.
\<close>

theorem shards_histogram_first_seen_order:
  "(\<exists>out. aggregate \<lparr>errors = False, items = any\<rparr> (request\<lparr>detailed_results := True\<rparr>) =
            Inr out \<and>
          out_shards_histogram out = None) \<and>
   aggregate \<lparr>errors = True, items = None\<rparr> (request\<lparr>detailed_results := True\<rparr>) =
     Inl MalformedResponse \<and>
   (\<exists>out h.
     aggregate \<lparr>errors = True, items = Some its\<rparr> (request\<lparr>detailed_results := True\<rparr>) = Inr out \<and>
     out_shards_histogram out = Some h \<and>
     map group_shards h = first_seen (map (\<lambda>it. item_shards (snd it)) its) \<and>
     distinct (map group_shards h) \<and>
     (\<forall>g \<in> set h.
        group_item_count g =
          count_list (map (\<lambda>it. item_shards (snd it)) its) (group_shards g)) \<and>
     sum_list (map group_item_count h) = length its)"
proof -
  let ?sigs = "map (\<lambda>it. item_shards (snd it)) its"
  have unflagged:
    "\<exists>out. aggregate \<lparr>errors = False, items = any\<rparr> (request\<lparr>detailed_results := True\<rparr>) =
        Inr out \<and> out_shards_histogram out = None"
    by (simp add: aggregate_def)
  have malformed:
    "aggregate \<lparr>errors = True, items = None\<rparr> (request\<lparr>detailed_results := True\<rparr>) =
       Inl MalformedResponse"
    by (simp add: aggregate_def)
  obtain n ops h where scan: "scan_items True (0, [], []) its = (n, ops, h)"
    by (cases "scan_items True (0, [], []) its") auto
  have empty: "histogram_of [] = []"
    by (simp add: histogram_of_def)
  have h: "h = histogram_of ?sigs"
    using scan_items_histogram [of 0 "[]" "[]" its] scan by (simp add: empty)
  have total: "sum_list (map group_item_count h) = length its"
    using scan_items_histogram_sum [of 0 "[]" "[]" its] scan by simp
  have "aggregate \<lparr>errors = True, items = Some its\<rparr> (request\<lparr>detailed_results := True\<rparr>) =
      Inr \<lparr>out_index = declared_index request,
           out_weight = declared_bulk_size request,
           out_unit = ''docs'',
           out_bulk_size = declared_bulk_size request,
           out_success = (n = 0),
           out_error_count = n,
           out_ops = Some ops,
           out_shards_histogram = Some h\<rparr>"
    using scan by (simp add: aggregate_errors)
  moreover have "map group_shards h = first_seen ?sigs"
    unfolding h by (rule histogram_of_shards)
  moreover have "distinct (map group_shards h)"
    unfolding h by (simp add: histogram_of_shards distinct_first_seen)
  moreover have "\<forall>g \<in> set h. group_item_count g = count_list ?sigs (group_shards g)"
    unfolding h by (simp add: histogram_of_count)
  ultimately have flagged: "\<exists>out h.
     aggregate \<lparr>errors = True, items = Some its\<rparr> (request\<lparr>detailed_results := True\<rparr>) = Inr out \<and>
     out_shards_histogram out = Some h \<and>
     map group_shards h = first_seen ?sigs \<and>
     distinct (map group_shards h) \<and>
     (\<forall>g \<in> set h. group_item_count g = count_list ?sigs (group_shards g)) \<and>
     sum_list (map group_item_count h) = length its"
    using total by simp
  from unflagged malformed flagged show ?thesis by blast
qed

text \<open>
  The mixed bulk of \<open>test_mixed_bulk_with_detailed_stats\<close>: six items with the signatures
  (2,1,0), (2,1,0), (2,0,2), (2,1,1), (2,1,0), (2,0,2) give three groups of 3, 2 and 1
  items, in this order.
\<close>

theorem shards_histogram_first_seen_order_witness:
  "aggregate \<lparr>errors = True, items = Some items_mixed\<rparr>
     ((request0 6 (Some ''test'') False)\<lparr>detailed_results := True\<rparr>) =
     Inr \<lparr>out_index = Some ''test'', out_weight = 6, out_unit = ''docs'', out_bulk_size = 6,
          out_success = False, out_error_count = 3,
          out_ops =
            Some [(''index'',
                   \<lparr>op_item_count = 4, op_labels = [(''created'', 2), (''noop'', 2)]\<rparr>),
                  (''update'',
                   \<lparr>op_item_count = 2, op_labels = [(''updated'', 1), (''noop'', 1)]\<rparr>)],
          out_shards_histogram =
            Some [\<lparr>group_item_count = 3,
                   group_shards =
                     \<lparr>total_copies = 2, successful_copies = 1, failed_copies = 0\<rparr>\<rparr>,
                  \<lparr>group_item_count = 2,
                   group_shards =
                     \<lparr>total_copies = 2, successful_copies = 0, failed_copies = 2\<rparr>\<rparr>,
                  \<lparr>group_item_count = 1,
                   group_shards =
                     \<lparr>total_copies = 2, successful_copies = 1, failed_copies = 1\<rparr>\<rparr>]\<rparr> \<and>
   first_seen (map (\<lambda>it. item_shards (snd it)) items_mixed) =
     [\<lparr>total_copies = 2, successful_copies = 1, failed_copies = 0\<rparr>,
      \<lparr>total_copies = 2, successful_copies = 0, failed_copies = 2\<rparr>,
      \<lparr>total_copies = 2, successful_copies = 1, failed_copies = 1\<rparr>]"
  using shards_histogram_first_seen_order [where its = items_mixed
      and request = "request0 6 (Some ''test'') False"]
  by (simp add: aggregate_def request0_def items_mixed_def item0_def item_step_def
      is_error_status_def bump_label_def Let_def)

text \<open>
  Claim C6 as stated fails: the six items of the mixed bulk in a response without the
  error flag, processed with the detailed results enabled, give no histogram at all, so
  there are no groups whose item counts add up to six.
\<close>

theorem shards_histogram_unflagged_counterexample:
  "length items_mixed = 6 \<and>
   aggregate \<lparr>errors = False, items = Some items_mixed\<rparr>
     ((request0 6 (Some ''test'') False)\<lparr>detailed_results := True\<rparr>) =
     Inr \<lparr>out_index = Some ''test'', out_weight = 6, out_unit = ''docs'', out_bulk_size = 6,
          out_success = True, out_error_count = 0, out_ops = None,
          out_shards_histogram = None\<rparr>"
  by (simp add: aggregate_def request0_def items_mixed_def)

end
